theory Spec2Isabelle
  imports Complex_Main "HOL-Library.Log_Nat"
begin

section \<open>Python values and exceptions\<close>

text \<open>
  The module \<^verbatim>\<open>beets/dbcore/types.py\<close> is Python 2 code (it calls \<^verbatim>\<open>unicode\<close>). Its
  methods receive dynamically typed values, so the model has one type of Python values:
  \<^verbatim>\<open>None\<close>, booleans, integers (\<^verbatim>\<open>int\<close> and \<^verbatim>\<open>long\<close> together, unbounded), floats, text
  and byte strings. Text (\<open>PStr\<close>) is a \<^verbatim>\<open>unicode\<close> object whose code points are below 256, the
  characters that \<^typ>\<open>char\<close> offers. A byte string (\<open>PBytes\<close>) is a \<^verbatim>\<open>str\<close> object of Python 2;
  its characters are bytes. Other objects (lists, user classes) are outside the model, and
  so are the limits of memory.

  A raised exception is the left summand of the result.
\<close>

datatype error =
  TypeError | ValueError | UnicodeDecodeError | ZeroDivisionError | OverflowError
  | NotImplementedError | AttributeError

text \<open>
  \<^verbatim>\<open>UnicodeDecodeError\<close> is a subclass of \<^verbatim>\<open>ValueError\<close>: a handler for \<^verbatim>\<open>ValueError\<close> catches
  both, and none of the others.
\<close>

fun is_ValueError :: "error \<Rightarrow> bool" where
  "is_ValueError ValueError = True"
| "is_ValueError UnicodeDecodeError = True"
| "is_ValueError e = False"

text \<open>
  A Python float is an IEEE 754 binary64 number. A finite float is modelled by its exact
  rational value, negative zero is a value of its own (\<open>Finite 0\<close> is \<^verbatim>\<open>+0.0\<close>), and every
  operation that Python rounds is rounded explicitly by \<open>round_binary64\<close> below.
\<close>

datatype pyfloat = Finite rat | NegZero | PosInf | NegInf | NaN

datatype pyval =
  PNone | PBool bool | PInt int | PFloat pyfloat | PStr string | PBytes string

text \<open>Truth value testing, as \<^verbatim>\<open>bool(value)\<close> and the operators \<^verbatim>\<open>or\<close> and \<^verbatim>\<open>if\<close> do it.\<close>

fun truthy :: "pyval \<Rightarrow> bool" where
  "truthy PNone = False"
| "truthy (PBool b) = b"
| "truthy (PInt n) = (n \<noteq> 0)"
| "truthy (PFloat (Finite r)) = (r \<noteq> 0)"
| "truthy (PFloat NegZero) = False"
| "truthy (PFloat PosInf) = True"
| "truthy (PFloat NegInf) = True"
| "truthy (PFloat NaN) = True"
| "truthy (PStr s) = (s \<noteq> [])"
| "truthy (PBytes s) = (s \<noteq> [])"

text \<open>\<^verbatim>\<open>a or b\<close>: the left operand when it is true, the right one otherwise.\<close>

definition py_or :: "pyval \<Rightarrow> pyval \<Rightarrow> pyval" where
  "py_or a b = (if truthy a then a else b)"

text \<open>The integer that a boolean is (\<^verbatim>\<open>bool\<close> is a subclass of \<^verbatim>\<open>int\<close>).\<close>

definition int_of_bool :: "bool \<Rightarrow> int" where
  "int_of_bool b = (if b then 1 else 0)"


section \<open>Integers and text\<close>

subsection \<open>Decimal rendering\<close>

definition digit_char :: "nat \<Rightarrow> char" where
  "digit_char d = char_of (48 + d)"

fun nat_digits :: "nat \<Rightarrow> string" where
  "nat_digits n = (if n < 10 then [digit_char n] else nat_digits (n div 10) @ [digit_char (n mod 10)])"

declare nat_digits.simps [simp del]

text \<open>\<^verbatim>\<open>unicode(n)\<close> for an integer \<open>n\<close>: a minus sign when negative, then the decimal digits.\<close>

definition int_str :: "int \<Rightarrow> string" where
  "int_str n = (if n < 0 then CHR ''-'' # nat_digits (nat (- n)) else nat_digits (nat n))"

subsection \<open>Reading an integer: \<^verbatim>\<open>int(text)\<close>\<close>

text \<open>
  The characters below 256 that Python 2 counts as Unicode whitespace: tab, line feed,
  vertical tab, form feed, carriage return, the separators \<^verbatim>\<open>0x1c\<close> to \<^verbatim>\<open>0x1f\<close>, space,
  \<^verbatim>\<open>0x85\<close> and the no-break space.
\<close>

definition py_isspace :: "char \<Rightarrow> bool" where
  "py_isspace c = ((of_char c :: nat) \<in> {9, 10, 11, 12, 13, 28, 29, 30, 31, 32, 133, 160})"

definition is_digit :: "char \<Rightarrow> bool" where
  "is_digit c = (48 \<le> (of_char c :: nat) \<and> (of_char c :: nat) \<le> 57)"

definition digit_val :: "char \<Rightarrow> int" where
  "digit_val c = int (of_char c) - 48"

definition digits_val :: "string \<Rightarrow> int" where
  "digits_val ds = foldl (\<lambda>a c. 10 * a + digit_val c) 0 ds"

fun strip_sign :: "string \<Rightarrow> bool \<times> string" where
  "strip_sign [] = (False, [])"
| "strip_sign (c # cs) =
     (if c = CHR ''-'' then (True, cs) else if c = CHR ''+'' then (False, cs)
      else (False, c # cs))"

text \<open>
  \<^verbatim>\<open>int(text)\<close> in base 10, as Python 2 reads it: whitespace, an optional sign, whitespace
  again (Python 2 accepts \<^verbatim>\<open>int("- 5")\<close>), at least one digit, whitespace, and nothing
  else. Anything else raises \<^verbatim>\<open>ValueError\<close>. The result is unbounded: a value that does not
  fit a machine word is a \<^verbatim>\<open>long\<close>, not an error.
\<close>

definition int_of_text :: "string \<Rightarrow> error + int" where
  "int_of_text s =
     (let (neg, s1) = strip_sign (dropWhile py_isspace s);
          s2 = dropWhile py_isspace s1;
          ds = takeWhile is_digit s2;
          rest = dropWhile py_isspace (dropWhile is_digit s2)
      in if ds \<noteq> [] \<and> rest = []
         then Inr (if neg then - digits_val ds else digits_val ds)
         else Inl ValueError)"

text \<open>
  \<^verbatim>\<open>int(bytes)\<close> for a byte string reads the same form, with the whitespace of the C
  library: tab, line feed, vertical tab, form feed, carriage return and space. A null
  byte, like every other byte that is not part of the form, raises \<^verbatim>\<open>ValueError\<close>.
\<close>

definition c_isspace :: "char \<Rightarrow> bool" where
  "c_isspace c = ((of_char c :: nat) \<in> {9, 10, 11, 12, 13, 32})"

definition int_of_bytes :: "string \<Rightarrow> error + int" where
  "int_of_bytes s =
     (let (neg, s1) = strip_sign (dropWhile c_isspace s);
          s2 = dropWhile c_isspace s1;
          ds = takeWhile is_digit s2;
          rest = dropWhile c_isspace (dropWhile is_digit s2)
      in if ds \<noteq> [] \<and> rest = []
         then Inr (if neg then - digits_val ds else digits_val ds)
         else Inl ValueError)"


section \<open>Floats\<close>

subsection \<open>Rounding to binary64 and to decimal digits\<close>

definition pow2 :: "int \<Rightarrow> rat" where
  "pow2 k = (if 0 \<le> k then 2 ^ nat k else 1 / 2 ^ nat (- k))"

definition pow10 :: "int \<Rightarrow> rat" where
  "pow10 k = (if 0 \<le> k then 10 ^ nat k else 1 / 10 ^ nat (- k))"

text \<open>The number of decimal digits of \<open>n\<close> (one for \<open>n < 10\<close>).\<close>

function declen :: "int \<Rightarrow> int" where
  "declen n = (if n < 10 then 1 else declen (n div 10) + 1)"
  by pat_completeness auto
termination
  by (relation "measure nat") auto

declare declen.simps [simp del]

text \<open>
  For \<open>r > 0\<close>: the \<open>k\<close> with \<open>2 ^ k \<le> r < 2 ^ (k + 1)\<close>, and the same in base 10. The
  difference of the lengths of numerator and denominator is \<open>k\<close> or \<open>k + 1\<close>.
\<close>

definition ilog2 :: "rat \<Rightarrow> int" where
  "ilog2 r =
     (let (p, q) = quotient_of r;
          d = bitlen p - bitlen q
      in if pow2 d \<le> r then d else d - 1)"

definition ilog10 :: "rat \<Rightarrow> int" where
  "ilog10 r =
     (let (p, q) = quotient_of r;
          d = declen p - declen q
      in if pow10 d \<le> r then d else d - 1)"

definition round_half_even :: "rat \<Rightarrow> int" where
  "round_half_even r =
     (let f = \<lfloor>r\<rfloor>; d = r - of_int f
      in if d < 1 / 2 then f else if 1 / 2 < d then f + 1
         else if even f then f else f + 1)"

text \<open>
  The binary64 number nearest to \<open>r \<ge> 0\<close>, ties to even: 53 significant bits, the unit in
  the last place never below \<open>2 ^ - 1074\<close> (subnormal numbers). The exponent is not bounded
  above here; a result of \<open>2 ^ 1024\<close> or more is an overflow, decided by the caller.
\<close>

definition round_binary64 :: "rat \<Rightarrow> rat" where
  "round_binary64 r =
     (if r = 0 then 0
      else let q = max (ilog2 r - 52) (- 1074)
           in of_int (round_half_even (r / pow2 q)) * pow2 q)"

definition rnd :: "rat \<Rightarrow> rat" where
  "rnd r = (if r < 0 then - round_binary64 (- r) else round_binary64 r)"

text \<open>The float of sign \<open>neg\<close> and magnitude nearest to \<open>r \<ge> 0\<close>; infinite on overflow.\<close>

definition to_float :: "bool \<Rightarrow> rat \<Rightarrow> pyfloat" where
  "to_float neg r =
     (let x = round_binary64 r
      in if 2 ^ 1024 \<le> x then (if neg then NegInf else PosInf)
         else if x = 0 then (if neg then NegZero else Finite 0)
         else Finite (if neg then - x else x))"

definition float_of_rat :: "rat \<Rightarrow> pyfloat" where
  "float_of_rat r = to_float (r < 0) \<bar>r\<bar>"

text \<open>
  \<open>n\<close> significant decimal digits of \<open>r > 0\<close>, correctly rounded: the digits as a number
  \<open>m\<close> with \<open>10 ^ (n - 1) \<le> m < 10 ^ n\<close>, and the decimal exponent \<open>k\<close> of the first digit.
\<close>

definition round_sig :: "nat \<Rightarrow> rat \<Rightarrow> nat \<times> int" where
  "round_sig n r =
     (let k = ilog10 r;
          m = nat (round_half_even (r / pow10 (k - int n + 1)))
      in if m = 10 ^ n then (10 ^ (n - 1), k + 1) else (m, k))"


subsection \<open>Reading a float: \<^verbatim>\<open>float(text)\<close>\<close>

definition lower :: "char \<Rightarrow> char" where
  "lower c = (if 65 \<le> (of_char c :: nat) \<and> (of_char c :: nat) \<le> 90
              then char_of ((of_char c :: nat) + 32) else c)"

text \<open>The rest of \<open>s\<close> after the prefix \<open>w\<close> (given in lower case), compared without case.\<close>

definition match_ci :: "string \<Rightarrow> string \<Rightarrow> string option" where
  "match_ci w s =
     (if length w \<le> length s \<and> map lower (take (length w) s) = w
      then Some (drop (length w) s) else None)"

text \<open>\<^verbatim>\<open>inf\<close>, \<^verbatim>\<open>infinity\<close> and \<^verbatim>\<open>nan\<close>, in any case, after the sign.\<close>

definition parse_inf_nan :: "bool \<Rightarrow> string \<Rightarrow> (pyfloat \<times> string) option" where
  "parse_inf_nan neg s =
     (case match_ci ''inf'' s of
        Some r \<Rightarrow>
          Some (if neg then NegInf else PosInf,
                case match_ci ''inity'' r of Some r' \<Rightarrow> r' | None \<Rightarrow> r)
      | None \<Rightarrow>
          (case match_ci ''nan'' s of Some r \<Rightarrow> Some (NaN, r) | None \<Rightarrow> None))"

text \<open>
  An exponent part \<^verbatim>\<open>e\<close>, sign, digits. When no digit follows, the \<^verbatim>\<open>e\<close> is not part of
  the number and stays in the rest.
\<close>

definition parse_exponent :: "string \<Rightarrow> int \<times> string" where
  "parse_exponent s =
     (case s of
        [] \<Rightarrow> (0, s)
      | c # cs \<Rightarrow>
          if c = CHR ''e'' \<or> c = CHR ''E''
          then (let (neg, s1) = strip_sign cs; ds = takeWhile is_digit s1
                in if ds = [] then (0, s)
                   else (if neg then - digits_val ds else digits_val ds,
                         dropWhile is_digit s1))
          else (0, s))"

text \<open>
  A decimal number without sign: digits, an optional point and digits, with at least one
  digit in all, and an optional exponent. The result is its exact value and the rest.
\<close>

definition parse_decimal :: "string \<Rightarrow> (rat \<times> string) option" where
  "parse_decimal s =
     (let ip = takeWhile is_digit s;
          r1 = dropWhile is_digit s;
          (fp, r2) = (case r1 of
                        [] \<Rightarrow> ([], r1)
                      | c # cs \<Rightarrow>
                          if c = CHR ''.''
                          then (takeWhile is_digit cs, dropWhile is_digit cs)
                          else ([], r1))
      in if ip = [] \<and> fp = [] then None
         else (let (e, r3) = parse_exponent r2
               in Some (of_int (digits_val (ip @ fp)) * pow10 (e - int (length fp)), r3)))"

text \<open>
  \<^verbatim>\<open>float(text)\<close>: whitespace, a sign, a decimal number or \<^verbatim>\<open>inf\<close>/\<^verbatim>\<open>nan\<close>, whitespace and
  nothing else; the value is the nearest binary64 number, infinite when too large
  (\<^verbatim>\<open>float("1e999")\<close> is \<^verbatim>\<open>inf\<close>, not an error). Anything else raises \<^verbatim>\<open>ValueError\<close>.
\<close>

definition float_of_text :: "string \<Rightarrow> error + pyfloat" where
  "float_of_text s =
     (let (neg, s1) = strip_sign (dropWhile py_isspace s);
          num = (case parse_decimal s1 of
                   Some (r, rest) \<Rightarrow> Some (to_float neg r, rest)
                 | None \<Rightarrow> parse_inf_nan neg s1)
      in case num of
           None \<Rightarrow> Inl ValueError
         | Some (f, rest) \<Rightarrow>
             if dropWhile py_isspace rest = [] then Inr f else Inl ValueError)"

text \<open>\<^verbatim>\<open>float(bytes)\<close> for a byte string: the same form, with the whitespace of the C library.\<close>

definition float_of_bytes :: "string \<Rightarrow> error + pyfloat" where
  "float_of_bytes s =
     (let (neg, s1) = strip_sign (dropWhile c_isspace s);
          num = (case parse_decimal s1 of
                   Some (r, rest) \<Rightarrow> Some (to_float neg r, rest)
                 | None \<Rightarrow> parse_inf_nan neg s1)
      in case num of
           None \<Rightarrow> Inl ValueError
         | Some (f, rest) \<Rightarrow>
             if dropWhile c_isspace rest = [] then Inr f else Inl ValueError)"

subsection \<open>Writing a float\<close>

text \<open>
  The format type \<^verbatim>\<open>g\<close> with precision \<open>p\<close>, for \<open>r > 0\<close>: \<open>p\<close> significant digits, trailing
  zeros dropped, in exponent form when the decimal point would stand more than three
  zeros before the first digit or after the precision. \<open>dot0\<close> is the flag of
  \<^verbatim>\<open>str(float)\<close> that adds \<^verbatim>\<open>.0\<close> to a result that looks like an integer.
\<close>

definition strip_zeros :: "string \<Rightarrow> string" where
  "strip_zeros ds = rev (dropWhile (\<lambda>c. c = CHR ''0'') (rev ds))"

definition exp_str :: "int \<Rightarrow> string" where
  "exp_str e =
     (let ds = nat_digits (nat \<bar>e\<bar>)
      in (if e < 0 then CHR ''-'' else CHR ''+'') # (if length ds < 2 then CHR ''0'' # ds else ds))"

definition float_g :: "nat \<Rightarrow> bool \<Rightarrow> rat \<Rightarrow> string" where
  "float_g p dot0 r =
     (let (m, k) = round_sig p r;
          ds = strip_zeros (nat_digits m);
          decpt = k + 1
      in if decpt \<le> - 4 \<or> decpt > (if dot0 then int p - 1 else int p)
         then (case ds of
                 [] \<Rightarrow> []
               | d # fs \<Rightarrow> d # (if fs = [] then [] else CHR ''.'' # fs)) @ CHR ''e'' # exp_str k
         else if decpt \<le> 0
         then ''0.'' @ replicate (nat (- decpt)) CHR ''0'' @ ds
         else if int (length ds) \<le> decpt
         then ds @ replicate (nat decpt - length ds) CHR ''0'' @ (if dot0 then ''.0'' else [])
         else take (nat decpt) ds @ CHR ''.'' # drop (nat decpt) ds)"

text \<open>\<^verbatim>\<open>unicode(x)\<close> for a float: the format \<^verbatim>\<open>%.12g\<close> of Python 2, with \<^verbatim>\<open>.0\<close> added.\<close>

fun float_str :: "pyfloat \<Rightarrow> string" where
  "float_str NaN = ''nan''"
| "float_str PosInf = ''inf''"
| "float_str NegInf = ''-inf''"
| "float_str NegZero = ''-0.0''"
| "float_str (Finite r) =
     (if r = 0 then ''0.0''
      else (if r < 0 then ''-'' else []) @ float_g 12 True \<bar>r\<bar>)"

text \<open>
  The format specification \<^verbatim>\<open>.1f\<close> applied to a float. One digit after the point, the
  exact value rounded to the nearest tenth, ties to even. Python 2.7 turns the type \<^verbatim>\<open>f\<close>
  into \<^verbatim>\<open>g\<close> for a magnitude of \<^verbatim>\<open>1e50\<close> (the float) or more, and infinities and NaN are
  written by name.
\<close>

definition large_f :: rat where
  "large_f = round_binary64 (10 ^ 50)"

fun float_f1 :: "pyfloat \<Rightarrow> string" where
  "float_f1 NaN = ''nan''"
| "float_f1 PosInf = ''inf''"
| "float_f1 NegInf = ''-inf''"
| "float_f1 NegZero = ''-0.0''"
| "float_f1 (Finite r) =
     (if large_f \<le> \<bar>r\<bar> then (if r < 0 then ''-'' else []) @ float_g 1 False \<bar>r\<bar>
      else (let n = nat (round_half_even (\<bar>r\<bar> * 10))
            in (if r < 0 then ''-'' else []) @ nat_digits (n div 10) @ CHR ''.'' # nat_digits (n mod 10)))"

declare float_f1.simps(5) [simp del]


subsection \<open>Floor division of a float by an integer\<close>

text \<open>
  \<^verbatim>\<open>x // n\<close> for a float \<open>x\<close> and an integer \<open>n\<close>, as CPython's \<^verbatim>\<open>float_divmod\<close> computes
  it: \<open>n\<close> is converted to a float (\<^verbatim>\<open>OverflowError\<close> when too large), a zero divisor
  raises \<^verbatim>\<open>ZeroDivisionError\<close>, the remainder \<^verbatim>\<open>fmod\<close> is exact, every other operation is
  rounded, and the quotient is snapped to an integral value. A quotient of zero takes the
  sign of \<open>x / n\<close>.
\<close>

definition trunc :: "rat \<Rightarrow> int" where
  "trunc r = (if r < 0 then - \<lfloor>- r\<rfloor> else \<lfloor>r\<rfloor>)"

definition float_floordiv_finite :: "bool \<Rightarrow> rat \<Rightarrow> rat \<Rightarrow> pyfloat" where
  "float_floordiv_finite vneg v w =
     (let m = v - w * of_int (trunc (v / w));
          d0 = rnd (rnd (v - m) / w);
          d = (if m \<noteq> 0 \<and> ((w < 0) \<noteq> (m < 0)) then rnd (d0 - 1) else d0)
      in if d \<noteq> 0
         then (let fl = of_int \<lfloor>d\<rfloor>
               in Finite (if 1 / 2 < rnd (d - fl) then rnd (fl + 1) else fl))
         else (if vneg \<noteq> (w < 0) then NegZero else Finite 0))"

definition float_floordiv :: "pyfloat \<Rightarrow> int \<Rightarrow> error + pyfloat" where
  "float_floordiv x n =
     (case float_of_rat (of_int n) of
        Finite w \<Rightarrow>
          if w = 0 then Inl ZeroDivisionError
          else (case x of
                  Finite v \<Rightarrow> Inr (float_floordiv_finite (v < 0) v w)
                | NegZero \<Rightarrow> Inr (float_floordiv_finite True 0 w)
                | _ \<Rightarrow> Inr NaN)
      | _ \<Rightarrow> Inl OverflowError)"


section \<open>The built-in functions that the module calls\<close>

text \<open>
  \<^verbatim>\<open>unicode(value)\<close>. A byte string is decoded with the default encoding, ASCII: a byte of
  128 or more raises \<^verbatim>\<open>UnicodeDecodeError\<close>. On the other values of the model it does not
  raise.
\<close>

definition is_ascii :: "string \<Rightarrow> bool" where
  "is_ascii s = list_all (\<lambda>c. (of_char c :: nat) < 128) s"

fun py_unicode :: "pyval \<Rightarrow> error + string" where
  "py_unicode PNone = Inr ''None''"
| "py_unicode (PBool b) = Inr (if b then ''True'' else ''False'')"
| "py_unicode (PInt n) = Inr (int_str n)"
| "py_unicode (PFloat x) = Inr (float_str x)"
| "py_unicode (PStr s) = Inr s"
| "py_unicode (PBytes s) = (if is_ascii s then Inr s else Inl UnicodeDecodeError)"

text \<open>\<^verbatim>\<open>bool(value)\<close>.\<close>

definition py_bool :: "pyval \<Rightarrow> pyval" where
  "py_bool v = PBool (truthy v)"

text \<open>
  \<^verbatim>\<open>int(value)\<close>: \<^verbatim>\<open>TypeError\<close> for \<^verbatim>\<open>None\<close>, truncation for a float (\<^verbatim>\<open>ValueError\<close> for NaN,
  \<^verbatim>\<open>OverflowError\<close> for an infinity), parsing for text.
\<close>

fun py_int :: "pyval \<Rightarrow> error + pyval" where
  "py_int PNone = Inl TypeError"
| "py_int (PBool b) = Inr (PInt (int_of_bool b))"
| "py_int (PInt n) = Inr (PInt n)"
| "py_int (PFloat (Finite r)) = Inr (PInt (trunc r))"
| "py_int (PFloat NegZero) = Inr (PInt 0)"
| "py_int (PFloat NaN) = Inl ValueError"
| "py_int (PFloat PosInf) = Inl OverflowError"
| "py_int (PFloat NegInf) = Inl OverflowError"
| "py_int (PStr s) = (case int_of_text s of Inl e \<Rightarrow> Inl e | Inr n \<Rightarrow> Inr (PInt n))"
| "py_int (PBytes s) = (case int_of_bytes s of Inl e \<Rightarrow> Inl e | Inr n \<Rightarrow> Inr (PInt n))"

text \<open>The float nearest to an integer; \<^verbatim>\<open>OverflowError\<close> when it is too large.\<close>

definition float_of_int :: "int \<Rightarrow> error + pyfloat" where
  "float_of_int n =
     (case float_of_rat (of_int n) of
        PosInf \<Rightarrow> Inl OverflowError
      | NegInf \<Rightarrow> Inl OverflowError
      | x \<Rightarrow> Inr x)"

text \<open>\<^verbatim>\<open>float(value)\<close>.\<close>

fun py_float :: "pyval \<Rightarrow> error + pyval" where
  "py_float PNone = Inl TypeError"
| "py_float (PBool b) = Inr (PFloat (Finite (of_int (int_of_bool b))))"
| "py_float (PInt n) = (case float_of_int n of Inl e \<Rightarrow> Inl e | Inr x \<Rightarrow> Inr (PFloat x))"
| "py_float (PFloat x) = Inr (PFloat x)"
| "py_float (PStr s) = (case float_of_text s of Inl e \<Rightarrow> Inl e | Inr x \<Rightarrow> Inr (PFloat x))"
| "py_float (PBytes s) = (case float_of_bytes s of Inl e \<Rightarrow> Inl e | Inr x \<Rightarrow> Inr (PFloat x))"

text \<open>
  \<^verbatim>\<open>a // n\<close> with an integer on the right: integer floor division for an integer or a
  boolean on the left (\<^verbatim>\<open>ZeroDivisionError\<close> for \<open>n = 0\<close>), float floor division for a float,
  \<^verbatim>\<open>TypeError\<close> for \<^verbatim>\<open>None\<close>, text and byte strings.
\<close>

fun py_floordiv :: "pyval \<Rightarrow> int \<Rightarrow> error + pyval" where
  "py_floordiv (PInt a) n = (if n = 0 then Inl ZeroDivisionError else Inr (PInt (a div n)))"
| "py_floordiv (PBool b) n =
     (if n = 0 then Inl ZeroDivisionError else Inr (PInt (int_of_bool b div n)))"
| "py_floordiv (PFloat x) n =
     (case float_floordiv x n of Inl e \<Rightarrow> Inl e | Inr y \<Rightarrow> Inr (PFloat y))"
| "py_floordiv PNone n = Inl TypeError"
| "py_floordiv (PStr s) n = Inl TypeError"
| "py_floordiv (PBytes s) n = Inl TypeError"

text \<open>
  The replacement field \<^verbatim>\<open>{0:0{1}d}\<close> with the arguments \<open>v\<close> and the integer \<open>w\<close>: the
  format specification is \<^verbatim>\<open>0\<close>, the decimal text of \<open>w\<close>, \<^verbatim>\<open>d\<close>. A negative \<open>w\<close> gives a
  malformed specification (\<^verbatim>\<open>ValueError\<close>). The type \<^verbatim>\<open>d\<close> is for integers and booleans
  only; the zero flag pads with \<^verbatim>\<open>0\<close> between the sign and the digits up to the width \<open>w\<close>.
\<close>

definition zero_pad :: "nat \<Rightarrow> int \<Rightarrow> string" where
  "zero_pad w n =
     (let sign = (if n < 0 then ''-'' else []);
          ds = nat_digits (nat \<bar>n\<bar>)
      in sign @ replicate (w - length sign - length ds) CHR ''0'' @ ds)"

fun format_0d :: "pyval \<Rightarrow> int \<Rightarrow> error + string" where
  "format_0d (PInt n) w = (if w < 0 then Inl ValueError else Inr (zero_pad (nat w) n))"
| "format_0d (PBool b) w =
     (if w < 0 then Inl ValueError else Inr (zero_pad (nat w) (int_of_bool b)))"
| "format_0d v w = Inl ValueError"

text \<open>
  The replacement field \<^verbatim>\<open>{0:.1f}\<close>: a float is written by \<open>float_f1\<close>, an integer or a
  boolean is converted to a float first, any other value raises \<^verbatim>\<open>ValueError\<close>.
\<close>

fun format_f1 :: "pyval \<Rightarrow> error + string" where
  "format_f1 (PFloat x) = Inr (float_f1 x)"
| "format_f1 (PInt n) = (case float_of_int n of Inl e \<Rightarrow> Inl e | Inr x \<Rightarrow> Inr (float_f1 x))"
| "format_f1 (PBool b) = Inr (float_f1 (Finite (of_int (int_of_bool b))))"
| "format_f1 v = Inl ValueError"



section \<open>The classes of \<^verbatim>\<open>beets/dbcore/types.py\<close>\<close>

subsection \<open>Objects\<close>

text \<open>
  The eight classes of the module. \<open>Id'\<close> is the class \<^verbatim>\<open>Id\<close> (the name \<open>Id\<close> is the
  identity relation of HOL). The three query classes are names imported from the module
  \<^verbatim>\<open>query\<close>; the module only stores them.
\<close>

datatype cls = Type | Integer | PaddedInt | ScaledInt | Id' | Float | String | Boolean

datatype query_cls = NumericQuery | SubstringQuery | BooleanQuery

text \<open>
  An instance: its class and its attributes. An attribute that no \<^verbatim>\<open>__init__\<close> of the
  class sets is absent (\<open>None\<close> here), and reading it raises \<^verbatim>\<open>AttributeError\<close>.
\<close>

record descriptor =
  cls :: cls
  sql :: string
  query :: query_cls
  digits :: "int option"
  unit :: "int option"
  suffix :: "string option"

text \<open>The constructors: each runs its \<^verbatim>\<open>__init__\<close>, which calls the one of the base class.\<close>

definition Type_init :: "cls \<Rightarrow> string \<Rightarrow> query_cls \<Rightarrow> descriptor" where
  "Type_init c sql' query' =
     \<lparr>cls = c, sql = sql', query = query', digits = None, unit = None, suffix = None\<rparr>"

definition Integer_init :: "cls \<Rightarrow> string \<Rightarrow> query_cls \<Rightarrow> descriptor" where
  "Integer_init c sql' query' = Type_init c sql' query'"

definition new_Type :: "string \<Rightarrow> query_cls \<Rightarrow> descriptor" where
  "new_Type sql' query' = Type_init Type sql' query'"

definition new_Integer :: "string \<Rightarrow> query_cls \<Rightarrow> descriptor" where
  "new_Integer sql' query' = Integer_init Integer sql' query'"

definition new_PaddedInt :: "int \<Rightarrow> descriptor" where
  "new_PaddedInt digits' =
     (Integer_init PaddedInt ''INTEGER'' NumericQuery)\<lparr>digits := Some digits'\<rparr>"

definition new_ScaledInt :: "int \<Rightarrow> string \<Rightarrow> descriptor" where
  "new_ScaledInt unit' suffix' =
     (Integer_init ScaledInt ''INTEGER'' NumericQuery)\<lparr>unit := Some unit', suffix := Some suffix'\<rparr>"

definition new_Id :: descriptor where
  "new_Id = Integer_init Id' ''INTEGER PRIMARY KEY'' NumericQuery"

definition new_Float :: "string \<Rightarrow> query_cls \<Rightarrow> descriptor" where
  "new_Float sql' query' = Type_init Float sql' query'"

definition new_String :: "string \<Rightarrow> query_cls \<Rightarrow> descriptor" where
  "new_String sql' query' = Type_init String sql' query'"

definition new_Boolean :: "string \<Rightarrow> query_cls \<Rightarrow> descriptor" where
  "new_Boolean sql' query' = Type_init Boolean sql' query'"

text \<open>The constructors with the default arguments of the source.\<close>

abbreviation "Integer_default \<equiv> new_Integer ''INTEGER'' NumericQuery"
abbreviation "Float_default \<equiv> new_Float ''REAL'' NumericQuery"
abbreviation "String_default \<equiv> new_String ''TEXT'' SubstringQuery"
abbreviation "Boolean_default \<equiv> new_Boolean ''INTEGER'' BooleanQuery"

subsection \<open>Method bodies\<close>

text \<open>
  \<^verbatim>\<open>try: ... except ValueError: return d\<close>: only \<^verbatim>\<open>ValueError\<close> and its subclass are caught.
\<close>

definition except_ValueError :: "error + 'a \<Rightarrow> 'a \<Rightarrow> error + 'a" where
  "except_ValueError r d =
     (case r of Inl e \<Rightarrow> (if is_ValueError e then Inr d else Inl e) | Inr x \<Rightarrow> Inr x)"

text \<open>
  \<^verbatim>\<open>u'{0}{1}'.format(a, b)\<close>: the texts of both arguments, one after the other; an
  argument that cannot be turned into text raises.
\<close>

definition format_2 :: "pyval \<Rightarrow> pyval \<Rightarrow> error + string" where
  "format_2 a b =
     (case py_unicode a of
        Inl e \<Rightarrow> Inl e
      | Inr ta \<Rightarrow> (case py_unicode b of Inl e \<Rightarrow> Inl e | Inr tb \<Rightarrow> Inr (ta @ tb)))"

definition Type_format :: "descriptor \<Rightarrow> pyval \<Rightarrow> error + string" where
  "Type_format self value = Inl NotImplementedError"

definition Type_parse :: "descriptor \<Rightarrow> pyval \<Rightarrow> error + pyval" where
  "Type_parse self string = Inl NotImplementedError"

definition Integer_format :: "descriptor \<Rightarrow> pyval \<Rightarrow> error + string" where
  "Integer_format self value = py_unicode (py_or value (PInt 0))"

definition Integer_parse :: "descriptor \<Rightarrow> pyval \<Rightarrow> error + pyval" where
  "Integer_parse self string = except_ValueError (py_int string) (PInt 0)"

definition PaddedInt_format :: "descriptor \<Rightarrow> pyval \<Rightarrow> error + string" where
  "PaddedInt_format self value =
     (case digits self of
        None \<Rightarrow> Inl AttributeError
      | Some w \<Rightarrow> format_0d (py_or value (PInt 0)) w)"

definition ScaledInt_format :: "descriptor \<Rightarrow> pyval \<Rightarrow> error + string" where
  "ScaledInt_format self value =
     (case unit self of
        None \<Rightarrow> Inl AttributeError
      | Some u \<Rightarrow>
          (case py_floordiv (py_or value (PInt 0)) u of
             Inl e \<Rightarrow> Inl e
           | Inr q \<Rightarrow>
               (case suffix self of
                  None \<Rightarrow> Inl AttributeError
                | Some sfx \<Rightarrow> format_2 q (PStr sfx))))"

definition Float_format :: "descriptor \<Rightarrow> pyval \<Rightarrow> error + string" where
  "Float_format self value = format_f1 (py_or value (PFloat (Finite 0)))"

definition Float_parse :: "descriptor \<Rightarrow> pyval \<Rightarrow> error + pyval" where
  "Float_parse self string = except_ValueError (py_float string) (PFloat (Finite 0))"

definition String_format :: "descriptor \<Rightarrow> pyval \<Rightarrow> error + string" where
  "String_format self value = (if truthy value then py_unicode value else Inr [])"

definition String_parse :: "descriptor \<Rightarrow> pyval \<Rightarrow> error + pyval" where
  "String_parse self string = Inr string"

definition Boolean_format :: "descriptor \<Rightarrow> pyval \<Rightarrow> error + string" where
  "Boolean_format self value = py_unicode (py_bool value)"

text \<open>
  \<^verbatim>\<open>Boolean.parse\<close> calls \<^verbatim>\<open>str2bool\<close> of \<^verbatim>\<open>beets.util\<close>, which is not among the sources (the
  specification calls it an opaque capability from text to a boolean). It is a parameter
  of the model, and \<^verbatim>\<open>Boolean.parse\<close> returns or raises what it does.
\<close>

definition Boolean_parse ::
  "(pyval \<Rightarrow> error + pyval) \<Rightarrow> descriptor \<Rightarrow> pyval \<Rightarrow> error + pyval" where
  "Boolean_parse str2bool self string = str2bool string"

text \<open>
  In a closed statement about a class other than \<^verbatim>\<open>Boolean\<close>, whose calls never reach
  \<^verbatim>\<open>str2bool\<close>, the parameter is this function.
\<close>

abbreviation no_str2bool :: "pyval \<Rightarrow> error + pyval" where
  "no_str2bool \<equiv> (\<lambda>v. Inl NotImplementedError)"

subsection \<open>Method resolution\<close>

text \<open>
  The method resolution order of each class, and the classes whose body defines
  \<^verbatim>\<open>format\<close> and \<^verbatim>\<open>parse\<close>. A call runs the body of the first class in the order that
  defines the method.
\<close>

fun mro :: "cls \<Rightarrow> cls list" where
  "mro Type = [Type]"
| "mro Integer = [Integer, Type]"
| "mro PaddedInt = [PaddedInt, Integer, Type]"
| "mro ScaledInt = [ScaledInt, Integer, Type]"
| "mro Id' = [Id', Integer, Type]"
| "mro Float = [Float, Type]"
| "mro String = [String, Type]"
| "mro Boolean = [Boolean, Type]"

fun defines_format :: "cls \<Rightarrow> bool" where
  "defines_format Id' = False"
| "defines_format c = True"

fun defines_parse :: "cls \<Rightarrow> bool" where
  "defines_parse PaddedInt = False"
| "defines_parse ScaledInt = False"
| "defines_parse Id' = False"
| "defines_parse c = True"

fun format_body :: "cls \<Rightarrow> descriptor \<Rightarrow> pyval \<Rightarrow> error + string" where
  "format_body Type = Type_format"
| "format_body Integer = Integer_format"
| "format_body PaddedInt = PaddedInt_format"
| "format_body ScaledInt = ScaledInt_format"
| "format_body Float = Float_format"
| "format_body String = String_format"
| "format_body Boolean = Boolean_format"
| "format_body Id' = (\<lambda>self value. Inl AttributeError)"

fun parse_body ::
  "(pyval \<Rightarrow> error + pyval) \<Rightarrow> cls \<Rightarrow> descriptor \<Rightarrow> pyval \<Rightarrow> error + pyval" where
  "parse_body str2bool Type = Type_parse"
| "parse_body str2bool Integer = Integer_parse"
| "parse_body str2bool Float = Float_parse"
| "parse_body str2bool String = String_parse"
| "parse_body str2bool Boolean = Boolean_parse str2bool"
| "parse_body str2bool c = (\<lambda>self string. Inl AttributeError)"

text \<open>\<^verbatim>\<open>self.format(value)\<close> and \<^verbatim>\<open>self.parse(string)\<close>.\<close>

definition format :: "descriptor \<Rightarrow> pyval \<Rightarrow> error + string" where
  "format self value =
     (case find defines_format (mro (cls self)) of
        None \<Rightarrow> Inl AttributeError
      | Some c \<Rightarrow> format_body c self value)"

definition parse ::
  "(pyval \<Rightarrow> error + pyval) \<Rightarrow> descriptor \<Rightarrow> pyval \<Rightarrow> error + pyval" where
  "parse str2bool self string =
     (case find defines_parse (mro (cls self)) of
        None \<Rightarrow> Inl AttributeError
      | Some c \<Rightarrow> parse_body str2bool c self string)"


section \<open>Notions of the specification\<close>

text \<open>
  The specification speaks of a text padded on the left with a character up to a width:
  a text that is already as long or longer stays as it is.
\<close>

definition left_pad :: "nat \<Rightarrow> char \<Rightarrow> string \<Rightarrow> string" where
  "left_pad w c t = replicate (w - length t) c @ t"


text \<open>
  A text with exactly one digit after the decimal point: it ends with a point and one
  digit, something stands before the point, and there is no other point.
\<close>

definition one_decimal :: "string \<Rightarrow> bool" where
  "one_decimal t =
     (case rev t of
        d # p # ip \<Rightarrow> is_digit d \<and> p = CHR ''.'' \<and> ip \<noteq> [] \<and> CHR ''.'' \<notin> set ip
      | _ \<Rightarrow> False)"

text \<open>A call returns a value when it does not raise.\<close>

fun returns :: "error + 'a \<Rightarrow> bool" where
  "returns (Inl e) = False"
| "returns (Inr x) = True"

text \<open>
  The values that a field of an integer type holds (\<^verbatim>\<open>None\<close>, an integer or a boolean), and
  those that a field of the float type holds (\<^verbatim>\<open>None\<close> or a float).
\<close>

fun stored_int :: "pyval \<Rightarrow> bool" where
  "stored_int PNone = True"
| "stored_int (PBool b) = True"
| "stored_int (PInt n) = True"
| "stored_int v = False"

fun stored_float :: "pyval \<Rightarrow> bool" where
  "stored_float PNone = True"
| "stored_float (PFloat x) = True"
| "stored_float v = False"

text \<open>Text and byte strings, the two kinds of string of Python 2.\<close>

fun is_string :: "pyval \<Rightarrow> bool" where
  "is_string (PStr t) = True"
| "is_string (PBytes b) = True"
| "is_string v = False"

text \<open>Every value of the model but a byte string with a byte of 128 or more.\<close>

fun decodable :: "pyval \<Rightarrow> bool" where
  "decodable (PBytes b) = is_ascii b"
| "decodable v = True"


section \<open>Calls on constructed objects\<close>

text \<open>What a call of \<open>format\<close> or \<open>parse\<close> on an object of each class runs.\<close>

lemmas new_defs = new_Type_def new_Integer_def new_PaddedInt_def new_ScaledInt_def new_Id_def
  new_Float_def new_String_def new_Boolean_def Integer_init_def Type_init_def

lemma format_Integer [simp]: "format (new_Integer s q) v = py_unicode (py_or v (PInt 0))"
  by (simp add: format_def new_defs Integer_format_def)

lemma format_Id [simp]: "format new_Id v = py_unicode (py_or v (PInt 0))"
  by (simp add: format_def new_defs Integer_format_def)

lemma format_PaddedInt [simp]: "format (new_PaddedInt w) v = format_0d (py_or v (PInt 0)) w"
  by (simp add: format_def new_defs PaddedInt_format_def)

lemma format_2_text [simp]:
  "format_2 a (PStr sfx) = (case py_unicode a of Inl e \<Rightarrow> Inl e | Inr t \<Rightarrow> Inr (t @ sfx))"
  by (simp add: format_2_def split: sum.splits)

lemma format_ScaledInt [simp]:
  "format (new_ScaledInt u sfx) v =
     (case py_floordiv (py_or v (PInt 0)) u of Inl e \<Rightarrow> Inl e | Inr q \<Rightarrow> format_2 q (PStr sfx))"
  by (simp add: format_def new_defs ScaledInt_format_def split: sum.splits)

lemma format_Float [simp]: "format (new_Float s q) v = format_f1 (py_or v (PFloat (Finite 0)))"
  by (simp add: format_def new_defs Float_format_def)

lemma format_String [simp]:
  "format (new_String s q) v = (if truthy v then py_unicode v else Inr [])"
  by (simp add: format_def new_defs String_format_def)

lemma format_Boolean [simp]:
  "format (new_Boolean s q) v = Inr (if truthy v then ''True'' else ''False'')"
  by (simp add: format_def new_defs Boolean_format_def py_bool_def)

lemma parse_Integer [simp]:
  "parse sb (new_Integer s q) v = except_ValueError (py_int v) (PInt 0)"
  by (simp add: parse_def new_defs Integer_parse_def)

lemma parse_PaddedInt [simp]:
  "parse sb (new_PaddedInt w) v = except_ValueError (py_int v) (PInt 0)"
  by (simp add: parse_def new_defs Integer_parse_def)

lemma parse_ScaledInt [simp]:
  "parse sb (new_ScaledInt u sfx) v = except_ValueError (py_int v) (PInt 0)"
  by (simp add: parse_def new_defs Integer_parse_def)

lemma parse_Id [simp]: "parse sb new_Id v = except_ValueError (py_int v) (PInt 0)"
  by (simp add: parse_def new_defs Integer_parse_def)

lemma parse_Float [simp]:
  "parse sb (new_Float s q) v = except_ValueError (py_float v) (PFloat (Finite 0))"
  by (simp add: parse_def new_defs Float_parse_def)

lemma parse_String [simp]: "parse sb (new_String s q) v = Inr v"
  by (simp add: parse_def new_defs String_parse_def)

lemma parse_Boolean [simp]: "parse sb (new_Boolean s q) v = sb v"
  by (simp add: parse_def new_defs Boolean_parse_def)

text \<open>Reading text as an integer fails with \<^verbatim>\<open>ValueError\<close> only, which the method catches.\<close>

lemma int_of_text_error: "int_of_text t = Inl e \<Longrightarrow> e = ValueError"
  by (auto simp: int_of_text_def Let_def split: prod.splits if_splits)

lemma int_of_bytes_error: "int_of_bytes t = Inl e \<Longrightarrow> e = ValueError"
  by (auto simp: int_of_bytes_def Let_def split: prod.splits if_splits)

lemma parse_int_text:
  "except_ValueError (py_int (PStr t)) (PInt 0) =
     Inr (PInt (case int_of_text t of Inl e \<Rightarrow> 0 | Inr n \<Rightarrow> n))"
  by (auto simp: except_ValueError_def split: sum.splits dest: int_of_text_error)

lemma int_of_text_empty: "int_of_text [] = Inl ValueError"
  by (simp add: int_of_text_def)

lemma int_of_text_abc: "int_of_text ''abc'' = Inl ValueError"
  by (simp add: int_of_text_def py_isspace_def is_digit_def)

lemma int_of_text_42: "int_of_text ''42'' = Inr 42"
  by (simp add: int_of_text_def py_isspace_def is_digit_def digits_val_def digit_val_def)


section \<open>Properties of the integer conversions\<close>

lemma of_char_digit_char: "d < 10 \<Longrightarrow> (of_char (digit_char d) :: nat) = 48 + d"
  by (simp add: digit_char_def)

lemma is_digit_digit_char: "d < 10 \<Longrightarrow> is_digit (digit_char d)"
  by (simp add: is_digit_def of_char_digit_char)

lemma digit_val_digit_char: "d < 10 \<Longrightarrow> digit_val (digit_char d) = int d"
  by (simp add: digit_val_def of_char_digit_char)

lemma is_digit_not_space: "is_digit c \<Longrightarrow> \<not> py_isspace c"
  by (auto simp: is_digit_def py_isspace_def)

lemma is_digit_not_sign: "is_digit c \<Longrightarrow> c \<noteq> CHR ''-'' \<and> c \<noteq> CHR ''+''"
  by (auto simp: is_digit_def)

lemma is_digit_zero: "is_digit CHR ''0''"
  by (simp add: is_digit_def)

lemma digit_val_zero: "digit_val CHR ''0'' = 0"
  by (simp add: digit_val_def)

lemma nat_digits_digits: "c \<in> set (nat_digits n) \<Longrightarrow> is_digit c"
proof (induction n rule: nat_digits.induct)
  case (1 n)
  show ?case
  proof (cases "n < 10")
    case True
    with "1.prems" show ?thesis
      by (simp add: nat_digits.simps [of n] is_digit_digit_char)
  next
    case False
    with "1.prems" "1.IH" show ?thesis
      by (auto simp: nat_digits.simps [of n] is_digit_digit_char)
  qed
qed

lemma nat_digits_nonempty: "nat_digits n \<noteq> []"
  by (simp add: nat_digits.simps [of n])

lemma digits_val_snoc: "digits_val (ds @ [c]) = 10 * digits_val ds + digit_val c"
  by (simp add: digits_val_def)

lemma digits_val_nat_digits: "digits_val (nat_digits n) = int n"
proof (induction n rule: nat_digits.induct)
  case (1 n)
  show ?case
  proof (cases "n < 10")
    case True
    then show ?thesis
      by (simp add: nat_digits.simps [of n] digits_val_def digit_val_digit_char)
  next
    case False
    have "int n = 10 * int (n div 10) + int (n mod 10)"
      by (simp add: of_nat_div of_nat_mod)
    with False "1.IH" show ?thesis
      by (simp add: nat_digits.simps [of n] digits_val_snoc digit_val_digit_char)
  qed
qed

lemma digits_val_zeros: "digits_val (replicate k CHR ''0'' @ ds) = digits_val ds"
proof -
  have "foldl (\<lambda>a c. 10 * a + digit_val c) 0 (replicate k CHR ''0'') = 0"
    by (induction k) (simp_all add: digit_val_zero)
  then show ?thesis by (simp add: digits_val_def)
qed

lemma int_of_text_digits:
  assumes "ds \<noteq> []" and "\<forall>c \<in> set ds. is_digit c"
  shows "int_of_text ds = Inr (digits_val ds)"
proof -
  from assms obtain c cs where ds: "ds = c # cs" and c: "is_digit c"
    by (cases ds) auto
  have sp: "dropWhile py_isspace ds = ds"
    using c by (simp add: ds is_digit_not_space)
  have sg: "strip_sign ds = (False, ds)"
    using is_digit_not_sign [OF c] by (simp add: ds)
  have tw: "takeWhile is_digit ds = ds" and dw: "dropWhile is_digit ds = []"
    using assms(2) by simp_all
  show ?thesis
    using assms(1) by (simp add: int_of_text_def sp sg tw dw)
qed

lemma int_of_text_minus_digits:
  assumes "ds \<noteq> []" and "\<forall>c \<in> set ds. is_digit c"
  shows "int_of_text (CHR ''-'' # ds) = Inr (- digits_val ds)"
proof -
  from assms obtain c cs where ds: "ds = c # cs" and c: "is_digit c"
    by (cases ds) auto
  have ms: "\<not> py_isspace CHR ''-''"
    by (simp add: py_isspace_def)
  have sp: "dropWhile py_isspace ds = ds"
    using c by (simp add: ds is_digit_not_space)
  have tw: "takeWhile is_digit ds = ds" and dw: "dropWhile is_digit ds = []"
    using assms(2) by simp_all
  show ?thesis
    using assms(1) by (simp add: int_of_text_def ms sp tw dw)
qed

lemma int_of_text_int_str: "int_of_text (int_str n) = Inr n"
proof (cases "n < 0")
  case True
  then show ?thesis
    by (simp add: int_str_def int_of_text_minus_digits nat_digits_nonempty nat_digits_digits
        digits_val_nat_digits)
next
  case False
  then show ?thesis
    by (simp add: int_str_def int_of_text_digits nat_digits_nonempty nat_digits_digits
        digits_val_nat_digits)
qed

lemma int_of_text_zero_pad: "int_of_text (zero_pad w n) = Inr n"
proof -
  let ?ds = "nat_digits (nat \<bar>n\<bar>)"
  have all: "\<forall>c \<in> set (replicate k CHR ''0'' @ ?ds). is_digit c" for k
    by (auto simp: is_digit_zero nat_digits_digits)
  have ne: "replicate k CHR ''0'' @ ?ds \<noteq> []" for k
    by (simp add: nat_digits_nonempty)
  show ?thesis
  proof (cases "n < 0")
    case True
    then show ?thesis
      using int_of_text_minus_digits [OF ne all]
      by (simp add: zero_pad_def Let_def digits_val_zeros digits_val_nat_digits)
  next
    case False
    then show ?thesis
      using int_of_text_digits [OF ne all]
      by (simp add: zero_pad_def Let_def digits_val_zeros digits_val_nat_digits)
  qed
qed

lemma length_zero_pad: "length (zero_pad w n) = max w (length (int_str n))"
  by (auto simp: zero_pad_def int_str_def Let_def)

lemma zero_pad_wide: "w \<le> length (int_str n) \<Longrightarrow> zero_pad w n = int_str n"
  by (auto simp: zero_pad_def int_str_def Let_def)

lemma zero_pad_nonneg:
  "0 \<le> n \<Longrightarrow> zero_pad w n = replicate (w - length (int_str n)) CHR ''0'' @ int_str n"
  by (auto simp: zero_pad_def int_str_def Let_def)


lemma py_or_int [simp]: "py_or (PInt n) (PInt 0) = PInt n"
  by (simp add: py_or_def)

lemma py_or_None [simp]: "py_or PNone v = v"
  by (simp add: py_or_def)

lemma zero_pad_neg:
  "n < 0 \<Longrightarrow> zero_pad w n = CHR ''-'' # left_pad (w - 1) CHR ''0'' (int_str (- n))"
  by (simp add: zero_pad_def int_str_def left_pad_def Let_def)

lemma zero_pad_left_pad: "0 \<le> n \<Longrightarrow> zero_pad w n = left_pad w CHR ''0'' (int_str n)"
  by (simp add: zero_pad_nonneg left_pad_def)

lemma ex_int_str_0: "int_str 0 = ''0''" by code_simp
lemma ex_int_str_7: "int_str 7 = ''7''" by code_simp
lemma ex_pad_5: "zero_pad 3 5 = ''005''" by code_simp
lemma ex_pad_1234: "zero_pad 3 1234 = ''1234''" by code_simp
lemma ex_int_str_2: "int_str 2 = ''2''" by code_simp


section \<open>Properties of the float conversions\<close>

subsection \<open>Rounding to the nearest integer\<close>

lemma round_half_even_near: "\<bar>of_int (round_half_even x) - x\<bar> \<le> 1 / 2"
proof -
  have "of_int \<lfloor>x\<rfloor> \<le> x" and "x < of_int \<lfloor>x\<rfloor> + 1"
    by linarith+
  then show ?thesis
    by (auto simp: round_half_even_def Let_def)
qed

lemma round_half_even_tie:
  "\<bar>of_int (round_half_even x) - x\<bar> = 1 / 2 \<Longrightarrow> even (round_half_even x)"
proof -
  have "of_int \<lfloor>x\<rfloor> \<le> x" and "x < of_int \<lfloor>x\<rfloor> + 1"
    by linarith+
  then show "\<bar>of_int (round_half_even x) - x\<bar> = 1 / 2 \<Longrightarrow> even (round_half_even x)"
    by (auto simp: round_half_even_def Let_def split: if_splits)
qed

lemma round_half_even_ge: "of_int a \<le> x \<Longrightarrow> a \<le> round_half_even x"
  using round_half_even_near [of x] by linarith

lemma round_half_even_le: "x \<le> of_int b \<Longrightarrow> round_half_even x \<le> b"
  using round_half_even_near [of x] by linarith

subsection \<open>Powers of ten and decimal lengths\<close>

lemma pow10_powi: "pow10 k = 10 powi k"
  by (simp add: pow10_def power_int_def field_simps)

lemma pow10_pos: "0 < pow10 k"
  by (simp add: pow10_powi zero_less_power_int)

lemma pow10_add1: "pow10 (k + 1) = 10 * pow10 k"
  by (simp add: pow10_powi power_int_add_1')

lemma pow10_diff: "pow10 (a - b) = pow10 a / pow10 b"
  by (simp add: pow10_powi power_int_diff)

lemma pow10_mono: "a \<le> b \<Longrightarrow> pow10 a \<le> pow10 b"
  by (simp add: pow10_powi power_int_increasing)

lemma pow10_less_imp: "pow10 a < pow10 b \<Longrightarrow> a < b"
  using pow10_mono [of b a] by (cases "a < b") auto

lemma pow10_nonneg: "0 \<le> k \<Longrightarrow> pow10 k = 10 ^ nat k"
  by (simp add: pow10_def)

lemma int_pow10_le: "(10::int) ^ n \<le> p \<Longrightarrow> (10::rat) ^ n \<le> of_int p"
proof -
  assume "(10::int) ^ n \<le> p"
  then have "(of_int (10 ^ n) :: rat) \<le> of_int p"
    by (simp only: of_int_le_iff)
  then show ?thesis
    by simp
qed

lemma int_less_pow10: "p < (10::int) ^ n \<Longrightarrow> of_int p < (10::rat) ^ n"
proof -
  assume "p < (10::int) ^ n"
  then have "(of_int p :: rat) < of_int (10 ^ n)"
    by (simp only: of_int_less_iff)
  then show ?thesis
    by simp
qed

lemma declen_bounds:
  "1 \<le> n \<Longrightarrow> 1 \<le> declen n \<and> 10 ^ nat (declen n - 1) \<le> n \<and> n < 10 ^ nat (declen n)"
proof (induction n rule: declen.induct)
  case (1 n)
  show ?case
  proof (cases "n < 10")
    case True
    with "1.prems" show ?thesis
      by (simp add: declen.simps [of n])
  next
    case False
    then have "1 \<le> n div 10"
      by simp
    with "1.IH" False have IH: "1 \<le> declen (n div 10)"
      "10 ^ nat (declen (n div 10) - 1) \<le> n div 10"
      "n div 10 < 10 ^ nat (declen (n div 10))"
      by simp_all
    define d where "d = declen (n div 10)"
    define X :: int where "X = 10 ^ nat (d - 1)"
    have dn: "declen n = d + 1"
      using False by (simp add: declen.simps [of n] d_def)
    have pw: "(10::int) ^ nat d = 10 * X"
      using IH(1) by (simp add: X_def d_def flip: power_Suc)
    have n: "n = 10 * (n div 10) + n mod 10" "0 \<le> n mod 10" "n mod 10 < 10"
      by simp_all
    have lo: "10 * X \<le> n"
      using IH(2) n unfolding X_def d_def by linarith
    have hi: "n < 10 * (10 * X)"
      using IH(3) n pw unfolding d_def by linarith
    have "nat (d + 1) = Suc (nat d)"
      using IH(1) unfolding d_def by linarith
    then show ?thesis
      using lo hi IH(1) pw by (simp add: dn d_def)
  qed
qed

lemma ilog10_bounds:
  assumes "0 < r"
  shows "pow10 (ilog10 r) \<le> r" and "r < pow10 (ilog10 r + 1)"
proof -
  obtain p q where pq: "quotient_of r = (p, q)"
    by force
  have q: "0 < q" and r: "r = of_int p / of_int q"
    using pq by (simp_all add: quotient_of_denom_pos quotient_of_div)
  have p: "0 < p"
    using assms q by (simp add: r zero_less_divide_iff)
  define a b where "a = declen p" and "b = declen q"
  have a: "1 \<le> a" "10 ^ nat (a - 1) \<le> p" "p < 10 ^ nat a"
    using declen_bounds [of p] p by (simp_all add: a_def)
  have b: "1 \<le> b" "10 ^ nat (b - 1) \<le> q" "q < 10 ^ nat b"
    using declen_bounds [of q] q by (simp_all add: b_def)
  have pa: "pow10 (a - 1) \<le> of_int p" "of_int p < pow10 a"
    using a int_pow10_le [of "nat (a - 1)" p] int_less_pow10 [of p "nat a"]
    by (simp_all add: pow10_nonneg)
  have qb: "pow10 (b - 1) \<le> of_int q" "of_int q < pow10 b"
    using b int_pow10_le [of "nat (b - 1)" q] int_less_pow10 [of q "nat b"]
    by (simp_all add: pow10_nonneg)
  have up: "r < pow10 (a - b + 1)"
  proof -
    have "of_int p / of_int q < pow10 a / pow10 (b - 1)"
      using p pa(2) qb(1) pow10_pos [of "b - 1"] by (intro frac_less) simp_all
    also have "\<dots> = pow10 (a - (b - 1))"
      by (simp add: pow10_diff)
    finally show ?thesis
      by (simp add: r algebra_simps)
  qed
  have low: "pow10 (a - b - 1) \<le> r"
  proof -
    have "pow10 (a - 1) / pow10 b \<le> of_int p / of_int q"
      using q pa(1) qb(2) pow10_pos [of "a - 1"] by (intro frac_le) simp_all
    moreover have "pow10 (a - 1) / pow10 b = pow10 (a - 1 - b)"
      by (simp add: pow10_diff)
    ultimately show ?thesis
      by (simp add: r algebra_simps)
  qed
  have il: "ilog10 r = (if pow10 (a - b) \<le> r then a - b else a - b - 1)"
    by (simp add: ilog10_def pq a_def b_def Let_def)
  show "pow10 (ilog10 r) \<le> r"
    using low by (simp add: il)
  show "r < pow10 (ilog10 r + 1)"
    using up by (auto simp: il)
qed


subsection \<open>One significant digit\<close>

lemma round_sig_1:
  assumes "0 < r" and "round_sig 1 r = (m, k)"
  shows "1 \<le> m" and "m \<le> 9" and "ilog10 r \<le> k"
    and "\<bar>r - of_nat m * pow10 k\<bar> \<le> pow10 k / 2"
proof -
  define k0 where "k0 = ilog10 r"
  define x where "x = r / pow10 k0"
  define m0 where "m0 = round_half_even x"
  have P: "0 < pow10 k0"
    by (rule pow10_pos)
  have lo: "1 \<le> x"
    using ilog10_bounds(1) [OF assms(1)] P by (simp add: x_def k0_def pos_le_divide_eq)
  have hi: "x < 10"
    using ilog10_bounds(2) [OF assms(1)] P
    by (simp add: x_def k0_def pos_divide_less_eq pow10_add1)
  have m1: "1 \<le> m0"
    unfolding m0_def using lo by (intro round_half_even_ge) simp
  have m10: "m0 \<le> 10"
    unfolding m0_def using hi by (intro round_half_even_le) simp
  have near: "\<bar>of_int m0 - x\<bar> \<le> 1 / 2"
    unfolding m0_def by (rule round_half_even_near)
  have rx: "r = x * pow10 k0"
    using P by (simp add: x_def)
  have err: "\<bar>r - of_int m0 * pow10 k0\<bar> \<le> pow10 k0 / 2"
  proof -
    have "\<bar>r - of_int m0 * pow10 k0\<bar> = \<bar>of_int m0 - x\<bar> * pow10 k0"
      using P by (simp add: rx abs_mult flip: left_diff_distrib abs_minus_commute [of x])
    also have "\<dots> \<le> 1 / 2 * pow10 k0"
      using near P by (intro mult_right_mono) simp_all
    finally show ?thesis
      by simp
  qed
  have rs: "round_sig 1 r = (if nat m0 = 10 then (1, k0 + 1) else (nat m0, k0))"
    by (simp add: round_sig_def Let_def k0_def x_def m0_def)
  show "1 \<le> m" and "m \<le> 9" and "ilog10 r \<le> k"
    using assms(2) m1 m10 unfolding rs k0_def [symmetric] by (auto split: if_splits)
  show "\<bar>r - of_nat m * pow10 k\<bar> \<le> pow10 k / 2"
  proof (cases "nat m0 = 10")
    case True
    then have m0: "m0 = 10" and mk: "m = 1" "k = k0 + 1"
      using assms(2) unfolding rs by auto
    have "\<bar>r - 10 * pow10 k0\<bar> \<le> pow10 k0 / 2"
      using err by (simp add: m0)
    also have "\<dots> \<le> 10 * pow10 k0 / 2"
      using P by simp
    finally show ?thesis
      by (simp add: mk pow10_add1)
  next
    case False
    then have mk: "m = nat m0" "k = k0"
      using assms(2) unfolding rs by auto
    have "of_nat (nat m0) = (of_int m0 :: rat)"
      using m1 by simp
    then show ?thesis
      using err by (simp add: mk)
  qed
qed

lemma nat_digits_small: "n < 10 \<Longrightarrow> nat_digits n = [digit_char n]"
  by (simp add: nat_digits.simps [of n])

lemma nat_digits_long: "10 \<le> n \<Longrightarrow> 2 \<le> length (nat_digits n)"
  using nat_digits_nonempty [of "n div 10"]
  by (cases "nat_digits (n div 10)") (simp_all add: nat_digits.simps [of n])

lemma digit_char_not_zero: "1 \<le> m \<Longrightarrow> m \<le> 9 \<Longrightarrow> digit_char m \<noteq> CHR ''0''"
proof
  assume m: "1 \<le> m" "m \<le> 9" and "digit_char m = CHR ''0''"
  then have "(of_char (digit_char m) :: nat) = of_char CHR ''0''"
    by simp
  with m show False
    by (simp add: of_char_digit_char)
qed

lemma float_g_1:
  assumes "pow10 50 \<le> r" and "round_sig 1 r = (m, k)"
  shows "float_g 1 False r = int_str (int m) @ ''e+'' @ int_str k" and "50 \<le> k"
proof -
  have r: "0 < r"
    using assms(1) pow10_pos [of 50] by linarith
  note rs = round_sig_1 [OF r assms(2)]
  have "pow10 50 < pow10 (ilog10 r + 1)"
    using assms(1) ilog10_bounds(2) [OF r] by linarith
  then have "50 < ilog10 r + 1"
    by (rule pow10_less_imp)
  with rs(3) show k: "50 \<le> k"
    by linarith
  have ds: "strip_zeros (nat_digits m) = [digit_char m]"
    using rs(1,2) by (simp add: nat_digits_small strip_zeros_def digit_char_not_zero)
  have len: "\<not> length (nat_digits (nat k)) < 2"
    using nat_digits_long [of "nat k"] k by linarith
  have "float_g 1 False r = digit_char m # CHR ''e'' # CHR ''+'' # nat_digits (nat k)"
    using k len assms(2) by (simp add: float_g_def ds exp_str_def Let_def)
  moreover have "int_str (int m) = [digit_char m]"
    using rs(2) by (simp add: int_str_def nat_digits_small)
  moreover have "int_str k = nat_digits (nat k)"
    using k by (simp add: int_str_def)
  ultimately show "float_g 1 False r = int_str (int m) @ ''e+'' @ int_str k"
    by simp
qed

subsection \<open>Texts with one digit after the point\<close>

lemma dot_not_digit: "\<not> is_digit CHR ''.''"
  by (simp add: is_digit_def)

lemma dot_notin_nat_digits: "CHR ''.'' \<notin> set (nat_digits n)"
  using nat_digits_digits dot_not_digit by blast

lemma not_one_decimal_digits:
  assumes "2 \<le> length ds" and "\<forall>c \<in> set ds. is_digit c"
  shows "\<not> one_decimal (pre @ ds)"
proof -
  obtain x y zs where ds: "rev ds = x # y # zs"
    using assms(1) by (cases "rev ds"; cases "tl (rev ds)") (auto simp: Suc_le_eq dest: arg_cong [where f = length])
  then have "y \<in> set ds"
    by (metis list.set_intros(1,2) set_rev)
  with assms(2) have "y \<noteq> CHR ''.''"
    using dot_not_digit by blast
  then show ?thesis
    by (simp add: one_decimal_def ds)
qed

subsection \<open>The format \<^verbatim>\<open>.1f\<close>\<close>

lemma large_f_value: "large_f = 100000000000000007629769841091887003294964970946560"
  by code_simp

lemma pow10_50_le_large_f: "pow10 50 \<le> large_f"
  by (simp add: large_f_value pow10_def)

lemma float_f1_small:
  assumes "\<bar>r\<bar> < large_f"
  shows "float_f1 (Finite r) =
     (if r < 0 then ''-'' else []) @ int_str (round_half_even (\<bar>r\<bar> * 10) div 10) @ ''.''
       @ int_str (round_half_even (\<bar>r\<bar> * 10) mod 10)"
    and "0 \<le> round_half_even (\<bar>r\<bar> * 10)"
proof -
  define k where "k = round_half_even (\<bar>r\<bar> * 10)"
  show k: "0 \<le> round_half_even (\<bar>r\<bar> * 10)"
    by (intro round_half_even_ge) simp
  then have "nat k div 10 = nat (k div 10)" and "nat k mod 10 = nat (k mod 10)"
    by (simp_all add: k_def nat_div_distrib nat_mod_distrib)
  moreover have "0 \<le> k div 10" and "0 \<le> k mod 10"
    using k by (simp_all add: k_def pos_imp_zdiv_nonneg_iff)
  ultimately show "float_f1 (Finite r) =
     (if r < 0 then ''-'' else []) @ int_str (round_half_even (\<bar>r\<bar> * 10) div 10) @ ''.''
       @ int_str (round_half_even (\<bar>r\<bar> * 10) mod 10)"
    using assms by (simp add: float_f1.simps(5) Let_def int_str_def not_less flip: k_def)
qed

lemma one_decimal_float_f1:
  assumes "\<bar>r\<bar> < large_f"
  shows "one_decimal (float_f1 (Finite r))"
proof -
  define n where "n = nat (round_half_even (\<bar>r\<bar> * 10))"
  define ip where "ip = (if r < 0 then ''-'' else []) @ nat_digits (n div 10)"
  have t: "float_f1 (Finite r) = ip @ [CHR ''.'', digit_char (n mod 10)]"
    using assms by (simp add: float_f1.simps(5) n_def ip_def Let_def nat_digits_small)
  have "ip \<noteq> []" and "CHR ''.'' \<notin> set ip"
    by (simp_all add: ip_def nat_digits_nonempty dot_notin_nat_digits)
  then show ?thesis
    unfolding t one_decimal_def by (cases "rev ip") (auto simp: is_digit_digit_char)
qed

lemma float_f1_large:
  assumes "large_f \<le> \<bar>r\<bar>" and "round_sig 1 \<bar>r\<bar> = (m, k)"
  shows "float_f1 (Finite r) = (if r < 0 then ''-'' else []) @ int_str (int m) @ ''e+'' @ int_str k"
    and "1 \<le> m" and "m \<le> 9" and "50 \<le> k"
    and "\<bar>\<bar>r\<bar> - of_nat m * 10 ^ nat k\<bar> \<le> 10 ^ nat k / 2"
    and "\<not> one_decimal (float_f1 (Finite r))"
proof -
  have big: "pow10 50 \<le> \<bar>r\<bar>"
    using assms(1) pow10_50_le_large_f by linarith
  then have pos: "0 < \<bar>r\<bar>"
    using pow10_pos [of 50] by linarith
  note g = float_g_1 [OF big assms(2)]
  note rs = round_sig_1 [OF pos assms(2)]
  show t: "float_f1 (Finite r) = (if r < 0 then ''-'' else []) @ int_str (int m) @ ''e+'' @ int_str k"
    using assms(1) g(1) by (simp add: float_f1.simps(5))
  show "1 \<le> m" and "m \<le> 9" and k: "50 \<le> k"
    by (rule rs(1), rule rs(2), rule g(2))
  show "\<bar>\<bar>r\<bar> - of_nat m * 10 ^ nat k\<bar> \<le> 10 ^ nat k / 2"
    using rs(4) k by (simp add: pow10_nonneg)
  have digs: "\<forall>c \<in> set (int_str k). is_digit c" and len: "2 \<le> length (int_str k)"
    using k nat_digits_long [of "nat k"] by (auto simp: int_str_def nat_digits_digits)
  show "\<not> one_decimal (float_f1 (Finite r))"
    using not_one_decimal_digits [OF len digs, of "(if r < 0 then ''-'' else []) @ int_str (int m) @ ''e+''"]
    by (simp add: t)
qed

subsection \<open>Reading a float\<close>

lemma float_of_text_error: "float_of_text t = Inl e \<Longrightarrow> e = ValueError"
  by (auto simp: float_of_text_def Let_def split: prod.splits option.splits if_splits)

lemma float_of_bytes_error: "float_of_bytes t = Inl e \<Longrightarrow> e = ValueError"
  by (auto simp: float_of_bytes_def Let_def split: prod.splits option.splits if_splits)

lemma parse_float_text:
  "except_ValueError (py_float (PStr t)) (PFloat (Finite 0)) =
     Inr (PFloat (case float_of_text t of Inl e \<Rightarrow> Finite 0 | Inr x \<Rightarrow> x))"
  by (auto simp: except_ValueError_def split: sum.splits dest: float_of_text_error)

lemma py_or_float: "py_or (PFloat (Finite r)) (PFloat (Finite 0)) = PFloat (Finite r)"
  by (simp add: py_or_def)

lemma py_or_special [simp]:
  "py_or (PFloat NaN) v = PFloat NaN" "py_or (PFloat PosInf) v = PFloat PosInf"
  "py_or (PFloat NegInf) v = PFloat NegInf" "py_or (PFloat NegZero) v = v"
  by (simp_all add: py_or_def)

lemma float_f1_zero: "float_f1 (Finite 0) = ''0.0''" by code_simp

lemma ex_parse_pi: "float_of_text ''3.14159'' = Inr (float_of_rat (314159 / 100000))"
  by code_simp

lemma ex_format_pi: "float_f1 (float_of_rat (314159 / 100000)) = ''3.1''"
  by code_simp

lemma ex_nan_text: "float_of_text ''nan-text'' = Inl ValueError"
  by code_simp

lemma ex_nan: "float_of_text ''nan'' = Inr NaN"
  by code_simp

lemma ex_large: "float_of_rat (10 ^ 50) = Finite large_f"
  by code_simp

lemma ex_format_large: "float_f1 (Finite large_f) = ''1e+50''"
  by code_simp

lemma ex_format_quarter: "float_f1 (Finite (1 / 4)) = ''0.2''"
  by code_simp

section \<open>Calls that return\<close>

lemma returns_parse_int:
  "is_string x \<Longrightarrow> returns (except_ValueError (py_int x) (PInt 0))"
  by (cases x)
    (auto simp: except_ValueError_def split: sum.splits
      dest: int_of_text_error int_of_bytes_error)

lemma returns_parse_float:
  "is_string x \<Longrightarrow> returns (except_ValueError (py_float x) (PFloat (Finite 0)))"
  by (cases x)
    (auto simp: except_ValueError_def split: sum.splits
      dest: float_of_text_error float_of_bytes_error)

lemma returns_unicode: "returns (py_unicode v) = decodable v"
  by (cases v) simp_all

lemma decodable_or: "decodable (py_or v (PInt 0)) = decodable v"
  by (cases v) (auto simp: py_or_def is_ascii_def)

lemma returns_String_format:
  "returns (if truthy v then py_unicode v else Inr []) = decodable v"
  by (cases v) (auto simp: is_ascii_def)

lemma returns_format_0d: "0 \<le> w \<Longrightarrow> stored_int v \<Longrightarrow> returns (format_0d (py_or v (PInt 0)) w)"
  by (cases v) (auto simp: py_or_def)

lemma returns_floordiv:
  "u \<noteq> 0 \<Longrightarrow> stored_int v \<Longrightarrow>
     returns (case py_floordiv (py_or v (PInt 0)) u of Inl e \<Rightarrow> Inl e | Inr q \<Rightarrow> format_2 q (PStr sfx))"
  by (cases v) (auto simp: py_or_def format_2_def)

lemma returns_format_f1: "stored_float v \<Longrightarrow> returns (format_f1 (py_or v (PFloat (Finite 0))))"
  by (cases v) (auto simp: py_or_def)


section \<open>The claims\<close>

text \<open>
  C1, as stated, fails. \<^verbatim>\<open>format\<close> of a text that is not a number raises in \<^verbatim>\<open>PaddedInt\<close>
  (the format type \<^verbatim>\<open>d\<close>), in \<^verbatim>\<open>ScaledInt\<close> (the division) and in \<^verbatim>\<open>Float\<close> (the format type
  \<^verbatim>\<open>f\<close>); \<^verbatim>\<open>parse\<close> of \<^verbatim>\<open>None\<close> raises \<^verbatim>\<open>TypeError\<close>, which the methods do not catch; and
  \<^verbatim>\<open>format\<close> of a byte string with a byte of 128 or more raises \<^verbatim>\<open>UnicodeDecodeError\<close> in
  \<^verbatim>\<open>String\<close> and \<^verbatim>\<open>Integer\<close>, where \<^verbatim>\<open>unicode\<close> decodes it.
\<close>

theorem format_raises_counterexample:
  "format (new_PaddedInt 3) (PStr ''abc'') = Inl ValueError
   \<and> format (new_ScaledInt 1000 ''k'') (PStr ''abc'') = Inl TypeError
   \<and> format Float_default (PStr ''abc'') = Inl ValueError
   \<and> parse no_str2bool Integer_default PNone = Inl TypeError
   \<and> parse no_str2bool Float_default PNone = Inl TypeError
   \<and> format String_default (PBytes [CHR 0xFF]) = Inl UnicodeDecodeError
   \<and> format Integer_default (PBytes [CHR 0xFF]) = Inl UnicodeDecodeError"
  by (simp add: py_or_def except_ValueError_def is_ascii_def)

text \<open>
  C1, amended. The values are \<^verbatim>\<open>None\<close>, booleans, integers, floats, text and byte strings.
  \<^verbatim>\<open>format\<close> of \<^verbatim>\<open>Integer\<close>, \<^verbatim>\<open>Id\<close> and \<^verbatim>\<open>String\<close> returns a text for every such value but a
  byte string with a byte of 128 or more, and raises for that one; \<^verbatim>\<open>format\<close> of \<^verbatim>\<open>Boolean\<close>
  returns for every such value; \<^verbatim>\<open>format\<close> of \<^verbatim>\<open>PaddedInt\<close> (with a width that is not negative)
  and of \<^verbatim>\<open>ScaledInt\<close> (with a unit that is not zero) returns for \<^verbatim>\<open>None\<close>, integers and
  booleans, and \<^verbatim>\<open>format\<close> of \<^verbatim>\<open>Float\<close> for \<^verbatim>\<open>None\<close> and floats. \<^verbatim>\<open>parse\<close> of the integer
  variants and of \<^verbatim>\<open>Float\<close> returns a value for every text and every byte string, and
  \<^verbatim>\<open>parse\<close> of \<^verbatim>\<open>String\<close> for every such value. \<^verbatim>\<open>Boolean.parse\<close> returns or raises what
  \<^verbatim>\<open>str2bool\<close> does.
\<close>

theorem total_on_typed_input:
  "returns (format (new_Integer s q) v) = decodable v
   \<and> returns (format new_Id v) = decodable v
   \<and> returns (format (new_String s q) v) = decodable v
   \<and> returns (format (new_Boolean s q) v)
   \<and> (0 \<le> w \<and> stored_int v \<longrightarrow> returns (format (new_PaddedInt w) v))
   \<and> (u \<noteq> 0 \<and> stored_int v \<longrightarrow> returns (format (new_ScaledInt u sfx) v))
   \<and> (stored_float v \<longrightarrow> returns (format (new_Float s q) v))
   \<and> (is_string x \<longrightarrow>
        returns (parse sb (new_Integer s q) x)
        \<and> returns (parse sb (new_PaddedInt w) x)
        \<and> returns (parse sb (new_ScaledInt u sfx) x)
        \<and> returns (parse sb new_Id x)
        \<and> returns (parse sb (new_Float s q) x))
   \<and> returns (parse sb (new_String s q) v)
   \<and> parse sb (new_Boolean s q) v = sb v"
  by (simp add: returns_parse_int returns_parse_float returns_format_0d returns_unicode
      decodable_or returns_String_format
      returns_floordiv returns_format_f1 del: py_int.simps py_float.simps py_unicode.simps)

theorem total_on_typed_input_witness:
  "(0::int) \<le> 3 \<and> (1000::int) \<noteq> 0 \<and> stored_int (PInt 5) \<and> stored_float (PFloat NaN)
   \<and> is_string (PStr ''abc'') \<and> is_string (PBytes ''12'') \<and> decodable (PBytes ''12'')
   \<and> returns (format (new_PaddedInt 3) (PInt 5))
   \<and> returns (format (new_ScaledInt 1000 ''k'') (PInt 5))
   \<and> returns (format Float_default (PFloat NaN))
   \<and> returns (format String_default (PBytes ''12''))
   \<and> returns (parse no_str2bool (new_PaddedInt 3) (PStr ''abc''))
   \<and> returns (parse no_str2bool Float_default (PBytes ''12''))"
  using total_on_typed_input [of "''REAL''" NumericQuery "PInt 5" 3 1000 "''k''"
      "PStr ''abc''" no_str2bool]
    total_on_typed_input [of "''REAL''" NumericQuery "PFloat NaN" 3 1000 "''k''"
      "PBytes ''12''" no_str2bool]
    total_on_typed_input [of "''TEXT''" SubstringQuery "PBytes ''12''" 3 1000 "''k''"
      "PBytes ''12''" no_str2bool]
  by (simp add: is_ascii_def)



text \<open>
  C6. \<^verbatim>\<open>PaddedInt\<close>, \<^verbatim>\<open>ScaledInt\<close> and \<^verbatim>\<open>Id\<close> do not define \<^verbatim>\<open>parse\<close>, and \<^verbatim>\<open>Id\<close> does not define
  \<^verbatim>\<open>format\<close>: on every input each of these calls gives exactly the result of the call on
  an \<^verbatim>\<open>Integer\<close>, whatever the arguments of the constructors.
\<close>

theorem inherited_methods:
  "parse sb (new_PaddedInt w) v = parse sb (new_Integer s q) v
   \<and> parse sb (new_ScaledInt u sfx) v = parse sb (new_Integer s q) v
   \<and> parse sb new_Id v = parse sb (new_Integer s q) v
   \<and> format new_Id v = format (new_Integer s q) v"
  by simp

text \<open>
  C7. \<^verbatim>\<open>String.parse\<close> returns its argument unchanged, for every argument, and never
  raises; \<^verbatim>\<open>String.format(None)\<close> is the empty text and \<^verbatim>\<open>String.parse("hello")\<close> is
  \<^verbatim>\<open>"hello"\<close>.
\<close>

theorem String_parse_identity:
  "parse sb (new_String s q) v = Inr v
   \<and> format (new_String s q) PNone = Inr ''''
   \<and> parse sb (new_String s q) (PStr ''hello'') = Inr (PStr ''hello'')"
  by simp

text \<open>
  C9. \<^verbatim>\<open>Boolean.format\<close> gives the text \<^verbatim>\<open>True\<close> for a value that is true and \<^verbatim>\<open>False\<close> for
  one that is not, so one of the two for every value; \<^verbatim>\<open>Boolean.format(1)\<close> is \<^verbatim>\<open>True\<close>.
\<close>

theorem Boolean_format_truthiness:
  "format (new_Boolean s q) v = Inr (if truthy v then ''True'' else ''False'')
   \<and> format (new_Boolean s q) (PInt 1) = Inr ''True''"
  by simp

text \<open>
  C10. \<^verbatim>\<open>String.format\<close> gives the empty text for every value that is not true: for
  \<^verbatim>\<open>None\<close> and the empty text, and also for the integer \<open>0\<close>, the float \<open>0.0\<close> and \<^verbatim>\<open>False\<close>,
  so that a stored zero is written as the empty text and not as \<^verbatim>\<open>0\<close>.
\<close>

theorem String_format_falsy:
  "(\<not> truthy v \<longrightarrow> format (new_String s q) v = Inr '''')
   \<and> format (new_String s q) PNone = Inr ''''
   \<and> format (new_String s q) (PStr '''') = Inr ''''
   \<and> format (new_String s q) (PInt 0) = Inr ''''
   \<and> format (new_String s q) (PFloat (Finite 0)) = Inr ''''
   \<and> format (new_String s q) (PBool False) = Inr ''''"
  by simp

theorem String_format_falsy_witness:
  "\<not> truthy (PFloat NegZero) \<and> format String_default (PFloat NegZero) = Inr ''''"
  using String_format_falsy [of "PFloat NegZero" "''TEXT''" SubstringQuery] by simp


text \<open>
  C3. Writing an integer with \<^verbatim>\<open>Integer.format\<close> and reading the text back with
  \<^verbatim>\<open>Integer.parse\<close> gives the integer again, for every integer; \<^verbatim>\<open>Integer.format(None)\<close> is
  \<^verbatim>\<open>0\<close> and \<^verbatim>\<open>Integer.format(7)\<close> is \<^verbatim>\<open>7\<close>.
\<close>

theorem Integer_roundtrip:
  "format (new_Integer s q) (PInt n) = Inr (int_str n)
   \<and> parse sb (new_Integer s q) (PStr (int_str n)) = Inr (PInt n)
   \<and> format (new_Integer s q) PNone = Inr ''0''
   \<and> format (new_Integer s q) (PInt 7) = Inr ''7''"
  by (simp add: int_of_text_int_str except_ValueError_def ex_int_str_0 ex_int_str_7)

text \<open>
  C4. For a \<^verbatim>\<open>PaddedInt\<close> with a positive number of digits \<open>w\<close>, \<^verbatim>\<open>format\<close> writes an integer
  in decimal, padded with \<^verbatim>\<open>0\<close> on the left to the width \<open>w\<close> (after the sign when the integer
  is negative); the result reads back as the integer, is exactly \<open>w\<close> characters long unless
  the decimal text is longer, and then it is the decimal text itself. \<^verbatim>\<open>None\<close> is written as
  \<open>0\<close> is. With three digits, \<open>5\<close> gives \<^verbatim>\<open>005\<close> and \<open>1234\<close> gives \<^verbatim>\<open>1234\<close>.
\<close>

theorem PaddedInt_format_pads:
  "(0 < w \<longrightarrow>
      (0 \<le> n \<longrightarrow> format (new_PaddedInt w) (PInt n) = Inr (left_pad (nat w) CHR ''0'' (int_str n)))
      \<and> (n < 0 \<longrightarrow> format (new_PaddedInt w) (PInt n) =
            Inr (CHR ''-'' # left_pad (nat w - 1) CHR ''0'' (int_str (- n))))
      \<and> (case format (new_PaddedInt w) (PInt n) of
            Inl e \<Rightarrow> False
          | Inr t \<Rightarrow> int_of_text t = Inr n \<and> length t = max (nat w) (length (int_str n))
                     \<and> (nat w \<le> length (int_str n) \<longrightarrow> t = int_str n))
      \<and> format (new_PaddedInt w) PNone = format (new_PaddedInt w) (PInt 0))
   \<and> format (new_PaddedInt 3) (PInt 5) = Inr ''005''
   \<and> format (new_PaddedInt 3) (PInt 1234) = Inr ''1234''"
  by (simp add: zero_pad_left_pad zero_pad_neg int_of_text_zero_pad length_zero_pad
      zero_pad_wide ex_pad_5 ex_pad_1234)

theorem PaddedInt_format_pads_witness:
  "(0::int) < 3 \<and> format (new_PaddedInt 3) (PInt 42) = Inr ''042''
   \<and> format (new_PaddedInt 3) (PInt (- 7)) = Inr ''-07''
   \<and> format (new_PaddedInt 3) PNone = Inr ''000''"
proof -
  have a: "left_pad (nat 3) CHR ''0'' (int_str 42) = ''042''" by code_simp
  have b: "left_pad (nat 3 - 1) CHR ''0'' (int_str (- (- 7))) = ''07''" by code_simp
  have c: "left_pad (nat 3) CHR ''0'' (int_str 0) = ''000''" by code_simp
  show ?thesis
    using PaddedInt_format_pads [of 3 42] PaddedInt_format_pads [of 3 "- 7"]
      PaddedInt_format_pads [of 3 0] a b c by simp
qed

text \<open>
  C5. For a \<^verbatim>\<open>ScaledInt\<close> with a unit \<open>u > 0\<close> and a suffix, \<^verbatim>\<open>format\<close> writes the floor of
  the value divided by \<open>u\<close> in decimal, followed at once by the suffix; \<^verbatim>\<open>None\<close> is written
  as \<open>0\<close> is. With the unit \<open>1000\<close> and the suffix \<^verbatim>\<open>k\<close>, \<open>2500\<close> gives \<^verbatim>\<open>2k\<close>.
\<close>

theorem ScaledInt_format_scales:
  "(0 < u \<longrightarrow>
      format (new_ScaledInt u sfx) (PInt n) =
        Inr (int_str \<lfloor>rat_of_int n / rat_of_int u\<rfloor> @ sfx)
      \<and> format (new_ScaledInt u sfx) PNone = format (new_ScaledInt u sfx) (PInt 0))
   \<and> format (new_ScaledInt 1000 ''k'') (PInt 2500) = Inr ''2k''"
  by (simp add: floor_divide_of_int_eq ex_int_str_2)

theorem ScaledInt_format_scales_witness:
  "(0::int) < 1000 \<and> format (new_ScaledInt 1000 ''k'') (PInt (- 1)) = Inr ''-1k''
   \<and> format (new_ScaledInt 1000 ''k'') PNone = Inr ''0k''"
proof -
  have a: "int_str \<lfloor>rat_of_int (- 1) / rat_of_int 1000\<rfloor> = ''-1''" by code_simp
  have b: "int_str \<lfloor>rat_of_int 0 / rat_of_int 1000\<rfloor> = ''0''" by code_simp
  show ?thesis
    using ScaledInt_format_scales [of 1000 "''k''" "- 1"]
      ScaledInt_format_scales [of 1000 "''k''" 0] a b by simp
qed





end
